theory Spec2Isabelle
  imports Complex_Main "HOL-Library.Monad_Syntax"
begin

section \<open>Height-field sampling kernels of geometric\_clipmaps\_warp.py\<close>

text \<open>
  The kernels are written for NVIDIA Warp. Their scalars are modelled as follows.
  \<^item> Warp's \<open>float\<close> is modelled by \<open>real\<close>: rounding, infinities and NaN are not part
    of the model, every arithmetic operation is the exact one. A division by zero,
    which gives an infinity or NaN in floats, is outside the model.
  \<^item> Warp's \<open>int\<close> is modelled by \<open>int\<close>: the 32-bit range is not part of the model.
  \<^item> \<open>wp.vec2f\<close>, \<open>wp.vec2i\<close> and \<open>wp.vec3f\<close> are tuples (component 0 is \<open>fst\<close>);
    \<open>wp.vec4f\<close>, \<open>wp.mat22f\<close> and \<open>wp.mat44f\<close>, whose components the source assigns
    one by one, are records with one field per component.
  \<^item> A \<open>wp.array\<close> is a list. A kernel is modelled by its body, with the thread index
    \<open>tid\<close> as an explicit last argument, returning the arrays it writes. The arrays
    indexed by \<open>tid\<close> have one slot per thread; the DEM array, indexed by a computed
    flat index, is read with a bounds check.
  Python names starting with an underscore lose it (\<open>_preprocess\<close> is \<open>preprocess\<close>);
  \<open>_4points_normal\<close> is \<open>fourpoints_normal\<close>.
\<close>

type_synonym vec2f = "real \<times> real"
type_synonym vec2i = "int \<times> int"
type_synonym vec3f = "real \<times> real \<times> real"

record vec4f =
  c0 :: real
  c1 :: real
  c2 :: real
  c3 :: real

text \<open>Field \<open>qij\<close> of a \<open>mat22f\<close> is the source's \<open>q[i, j]\<close>.\<close>

record mat22f =
  q00 :: real
  q01 :: real
  q10 :: real
  q11 :: real

text \<open>Field \<open>pij\<close> of a \<open>mat44f\<close> is the source's \<open>q[i, j]\<close>.\<close>

record mat44f =
  p00 :: real
  p01 :: real
  p02 :: real
  p03 :: real
  p10 :: real
  p11 :: real
  p12 :: real
  p13 :: real
  p20 :: real
  p21 :: real
  p22 :: real
  p23 :: real
  p30 :: real
  p31 :: real
  p32 :: real
  p33 :: real

subsection \<open>Library operations used by the kernels\<close>

text \<open>\<open>wp.trunc\<close>: the integer part of a float, rounding towards zero.\<close>

definition trunc :: "real \<Rightarrow> real" where
  "trunc x = (if 0 \<le> x then of_int \<lfloor>x\<rfloor> else of_int \<lceil>x\<rceil>)"

text \<open>\<open>int(x)\<close> on a float: the conversion to an integer, rounding towards zero.\<close>

definition int_of_float :: "real \<Rightarrow> int" where
  "int_of_float x = (if 0 \<le> x then \<lfloor>x\<rfloor> else \<lceil>x\<rceil>)"

text \<open>
  \<open>wp.atomic_min(arr, i, value)\<close> and \<open>wp.atomic_max(arr, i, value)\<close>: Warp documents
  them as computing the minimum (maximum) of \<open>value\<close> and \<open>arr[i]\<close>, updating the array
  in place, and returning the old value of \<open>arr[i]\<close>. The model returns the old value
  together with the updated array.
\<close>

definition atomic_min :: "real list \<Rightarrow> nat \<Rightarrow> real \<Rightarrow> real \<times> real list" where
  "atomic_min arr i v = (arr ! i, arr[i := min (arr ! i) v])"

definition atomic_max :: "real list \<Rightarrow> nat \<Rightarrow> real \<Rightarrow> real \<times> real list" where
  "atomic_max arr i v = (arr ! i, arr[i := max (arr ! i) v])"

text \<open>
  A read \<open>dem[k]\<close> of the DEM array at a computed flat index. An index outside the
  array is a fault of the thread, the value \<open>None\<close>.
\<close>

definition dem_read :: "real list \<Rightarrow> int \<Rightarrow> real option" where
  "dem_read dem k = (if 0 \<le> k \<and> k < int (length dem) then Some (dem ! nat k) else None)"

text \<open>
  The errors a call can end with. A \<open>WarpBuildError\<close> is Warp's refusal to build a
  function; it is raised when a kernel that uses the function is launched.
  \<open>DegenerateNormalError\<close> is the error of section 7 of the specification.
\<close>

datatype error = WarpBuildError | DegenerateNormalError

text \<open>
  A scalar operand of an arithmetic operator is a float or an int; a Python int literal
  such as \<open>2\<close> is an int. Warp's operators are defined for two operands of the same
  type only: the division \<open>x / b\<close> of a float \<open>x\<close> by a float is the quotient, the
  division of a float by an int has no overload and the function does not build.
\<close>

datatype scalar = FloatVal real | IntVal int

definition float_div :: "real \<Rightarrow> scalar \<Rightarrow> error + real" where
  "float_div x b = (case b of FloatVal y \<Rightarrow> Inr (x / y) | IntVal k \<Rightarrow> Inl WarpBuildError)"

subsection \<open>The kernels\<close>

definition preprocess ::
  "real list \<Rightarrow> real list \<Rightarrow> vec2f list \<Rightarrow> vec2f \<Rightarrow> real \<Rightarrow> vec2f \<Rightarrow> nat
    \<Rightarrow> real list \<times> real list" where
  "preprocess x y points coord mpp dem_shape tid =
    (let x = x[tid := fst (points ! tid) / mpp + fst coord];
         y = y[tid := snd (points ! tid) / mpp + snd coord];
         (r, x) = atomic_min x tid (fst dem_shape - 1); x = x[tid := r];
         (r, y) = atomic_min y tid (snd dem_shape - 1); y = y[tid := r];
         (r, x) = atomic_max x tid 0; x = x[tid := r];
         (r, y) = atomic_max y tid 0; y = y[tid := r]
     in (x, y))"

definition get_4x4_mat ::
  "real list \<Rightarrow> vec2i \<Rightarrow> real \<Rightarrow> real \<Rightarrow> mat44f \<Rightarrow> mat44f option" where
  "get_4x4_mat dem dem_shape x y out =
    (let x0 = max (int_of_float x - 1) 0;
         y0 = max (int_of_float y - 1) 0;
         x1 = min (x0 + 1) (fst dem_shape - 1) * snd dem_shape;
         x2 = min (x0 + 2) (fst dem_shape - 1) * snd dem_shape;
         x3 = min (x0 + 3) (fst dem_shape - 1) * snd dem_shape;
         x0 = x0 * snd dem_shape;
         y1 = min (y0 + 1) (snd dem_shape - 1);
         y2 = min (y0 + 2) (snd dem_shape - 1);
         y3 = min (y0 + 3) (snd dem_shape - 1)
     in do {
       v \<leftarrow> dem_read dem (x0 + y0); let out = out\<lparr>p00 := v\<rparr>;
       v \<leftarrow> dem_read dem (x1 + y0); let out = out\<lparr>p10 := v\<rparr>;
       v \<leftarrow> dem_read dem (x2 + y0); let out = out\<lparr>p20 := v\<rparr>;
       v \<leftarrow> dem_read dem (x3 + y0); let out = out\<lparr>p30 := v\<rparr>;
       v \<leftarrow> dem_read dem (x0 + y1); let out = out\<lparr>p01 := v\<rparr>;
       v \<leftarrow> dem_read dem (x1 + y1); let out = out\<lparr>p11 := v\<rparr>;
       v \<leftarrow> dem_read dem (x2 + y1); let out = out\<lparr>p21 := v\<rparr>;
       v \<leftarrow> dem_read dem (x3 + y1); let out = out\<lparr>p31 := v\<rparr>;
       v \<leftarrow> dem_read dem (x0 + y2); let out = out\<lparr>p02 := v\<rparr>;
       v \<leftarrow> dem_read dem (x1 + y2); let out = out\<lparr>p12 := v\<rparr>;
       v \<leftarrow> dem_read dem (x2 + y2); let out = out\<lparr>p22 := v\<rparr>;
       v \<leftarrow> dem_read dem (x3 + y2); let out = out\<lparr>p32 := v\<rparr>;
       v \<leftarrow> dem_read dem (x0 + y3); let out = out\<lparr>p03 := v\<rparr>;
       v \<leftarrow> dem_read dem (x1 + y3); let out = out\<lparr>p13 := v\<rparr>;
       v \<leftarrow> dem_read dem (x2 + y3); let out = out\<lparr>p23 := v\<rparr>;
       v \<leftarrow> dem_read dem (x3 + y3); let out = out\<lparr>p33 := v\<rparr>;
       Some out
     })"

definition get_values_wp_4x4 ::
  "real list \<Rightarrow> vec2i \<Rightarrow> real list \<Rightarrow> real list \<Rightarrow> mat44f list \<Rightarrow> nat
    \<Rightarrow> mat44f list option" where
  "get_values_wp_4x4 dem dem_shape x y out tid =
    do { m \<leftarrow> get_4x4_mat dem dem_shape (x ! tid) (y ! tid) (out ! tid);
         Some (out[tid := m]) }"

definition get_2x2_mat ::
  "real list \<Rightarrow> vec2i \<Rightarrow> real \<Rightarrow> real \<Rightarrow> mat22f \<Rightarrow> mat22f option" where
  "get_2x2_mat dem dem_shape x y out =
    (let x0 = int_of_float x;
         y0 = int_of_float y;
         x1 = min (x0 + 1) (fst dem_shape - 1) * snd dem_shape;
         x0 = x0 * snd dem_shape;
         y1 = min (y0 + 1) (snd dem_shape - 1)
     in do {
       v \<leftarrow> dem_read dem (x0 + y0); let out = out\<lparr>q00 := v\<rparr>;
       v \<leftarrow> dem_read dem (x1 + y0); let out = out\<lparr>q10 := v\<rparr>;
       v \<leftarrow> dem_read dem (x0 + y1); let out = out\<lparr>q01 := v\<rparr>;
       v \<leftarrow> dem_read dem (x1 + y1); let out = out\<lparr>q11 := v\<rparr>;
       Some out
     })"

definition get_values_wp_2x2 ::
  "real list \<Rightarrow> vec2i \<Rightarrow> real list \<Rightarrow> real list \<Rightarrow> mat22f list \<Rightarrow> nat
    \<Rightarrow> mat22f list option" where
  "get_values_wp_2x2 dem dem_shape x y out tid =
    do { m \<leftarrow> get_2x2_mat dem dem_shape (x ! tid) (y ! tid) (out ! tid);
         Some (out[tid := m]) }"

definition bilinear_interpolator :: "real \<Rightarrow> real \<Rightarrow> mat22f \<Rightarrow> real" where
  "bilinear_interpolator x y q =
    (let x2 = x - trunc x;
         y2 = y - trunc y
     in (1 - x2) * (1 - y2) * q00 q
        + x2 * (1 - y2) * q10 q
        + (1 - x2) * y2 * q01 q
        + x2 * y2 * q11 q)"

definition bilinear_interpolation ::
  "real list \<Rightarrow> real list \<Rightarrow> mat22f list \<Rightarrow> real list \<Rightarrow> nat \<Rightarrow> real list" where
  "bilinear_interpolation x y q out tid =
    out[tid := bilinear_interpolator (x ! tid) (y ! tid) (q ! tid)]"

definition cubic_interpolator :: "real \<Rightarrow> vec4f \<Rightarrow> vec4f" where
  "cubic_interpolator x coeffs =
    (let x2 = x - trunc x;
         a = - (1 / 2);
         coeffs = coeffs\<lparr>c0 := a * (x2 * (1 - x2 * (2 - x2)))\<rparr>;
         coeffs = coeffs\<lparr>c1 := a * (- 2 + x2 * x2 * (5 - 3 * x2))\<rparr>;
         coeffs = coeffs\<lparr>c2 := a * (x2 * (- 1 + x2 * (- 4 + 3 * x2)))\<rparr>;
         coeffs = coeffs\<lparr>c3 := a * (x2 * x2 * (1 - x2))\<rparr>
     in coeffs)"

definition bicubic_interpolation ::
  "real list \<Rightarrow> real list \<Rightarrow> mat44f list \<Rightarrow> vec4f list \<Rightarrow> real list \<Rightarrow> nat
    \<Rightarrow> vec4f list \<times> real list" where
  "bicubic_interpolation x y q coeffs out tid =
    (let coeffs = coeffs[tid := cubic_interpolator (x ! tid) (coeffs ! tid)];
         a0 = p00 (q ! tid) * c0 (coeffs ! tid)
            + p10 (q ! tid) * c1 (coeffs ! tid)
            + p20 (q ! tid) * c2 (coeffs ! tid)
            + p30 (q ! tid) * c3 (coeffs ! tid);
         a1 = p01 (q ! tid) * c0 (coeffs ! tid)
            + p11 (q ! tid) * c1 (coeffs ! tid)
            + p21 (q ! tid) * c2 (coeffs ! tid)
            + p31 (q ! tid) * c3 (coeffs ! tid);
         a2 = p02 (q ! tid) * c0 (coeffs ! tid)
            + p12 (q ! tid) * c1 (coeffs ! tid)
            + p22 (q ! tid) * c2 (coeffs ! tid)
            + p32 (q ! tid) * c3 (coeffs ! tid);
         a3 = p03 (q ! tid) * c0 (coeffs ! tid)
            + p13 (q ! tid) * c1 (coeffs ! tid)
            + p23 (q ! tid) * c2 (coeffs ! tid)
            + p33 (q ! tid) * c3 (coeffs ! tid);
         coeffs = coeffs[tid := cubic_interpolator (y ! tid) (coeffs ! tid)];
         out = out[tid := a0 * c0 (coeffs ! tid)
                        + a1 * c1 (coeffs ! tid)
                        + a2 * c2 (coeffs ! tid)
                        + a3 * c3 (coeffs ! tid)]
     in (coeffs, out))"

text \<open>
  \<open>_normal_on_grid\<close> writes \<open>grid_size / 2\<close> twice, with the float \<open>grid_size\<close> and the
  int literal \<open>2\<close>.
\<close>

definition normal_on_grid :: "mat22f \<Rightarrow> real \<Rightarrow> error + vec3f" where
  "normal_on_grid q grid_size =
    (case float_div grid_size (IntVal 2) of
       Inl e \<Rightarrow> Inl e
     | Inr h0 \<Rightarrow>
         (case float_div grid_size (IntVal 2) of
            Inl e \<Rightarrow> Inl e
          | Inr h1 \<Rightarrow>
              Inr (h0 * (q01 q - q11 q - q10 q + q00 q),
                   h1 * (q10 q - q11 q - q01 q - q00 q),
                   grid_size * grid_size)))"


subsection \<open>Launching a kernel\<close>

text \<open>
  \<open>wp.launch(kernel, n, inputs)\<close> runs the kernel body once for every thread index
  \<open>tid\<close> from \<open>0\<close> to \<open>n - 1\<close>. The model runs the bodies one after another in
  increasing order of \<open>tid\<close> on the arrays the kernel writes. \<open>launch_opt\<close> is the launch
  of a kernel whose body can fault: the launch faults as soon as one thread does.
\<close>

definition launch :: "nat \<Rightarrow> (nat \<Rightarrow> 's \<Rightarrow> 's) \<Rightarrow> 's \<Rightarrow> 's" where
  "launch n body s = fold body [0..<n] s"

definition launch_opt :: "nat \<Rightarrow> (nat \<Rightarrow> 's \<Rightarrow> 's option) \<Rightarrow> 's \<Rightarrow> 's option" where
  "launch_opt n body s = fold (\<lambda>tid r. Option.bind r (body tid)) [0..<n] (Some s)"

subsection \<open>The sampler's batch operations\<close>

datatype mode = Bilinear | Bicubic

definition zero22 :: mat22f where
  "zero22 = \<lparr>q00 = 0, q01 = 0, q10 = 0, q11 = 0\<rparr>"

definition zero44 :: mat44f where
  "zero44 = \<lparr>p00 = 0, p01 = 0, p02 = 0, p03 = 0, p10 = 0, p11 = 0, p12 = 0, p13 = 0,
             p20 = 0, p21 = 0, p22 = 0, p23 = 0, p30 = 0, p31 = 0, p32 = 0, p33 = 0\<rparr>"

definition zero4 :: vec4f where
  "zero4 = \<lparr>c0 = 0, c1 = 0, c2 = 0, c3 = 0\<rparr>"

definition shape_f :: "vec2i \<Rightarrow> vec2f" where
  "shape_f dem_shape = (of_int (fst dem_shape), of_int (snd dem_shape))"

text \<open>
  Modelled from the spec: the host code that allocates the work arrays and launches the
  kernels one after another is not among the source files. Section 4.1 of the
  specification gives the sequence: convert and clamp the points (\<open>_preprocess\<close>),
  gather the neighbourhoods, then interpolate. The work arrays
  are allocated with one zero-initialised slot per point, and every kernel is launched
  with one thread per point.
\<close>

definition pixel_coords ::
  "vec2i \<Rightarrow> vec2f \<Rightarrow> real \<Rightarrow> vec2f list \<Rightarrow> real list \<times> real list" where
  "pixel_coords dem_shape coord mpp points =
    (let n = length points
     in launch n (\<lambda>tid (x, y). preprocess x y points coord mpp (shape_f dem_shape) tid)
          (replicate n 0, replicate n 0))"

definition gather_2x2 ::
  "real list \<Rightarrow> vec2i \<Rightarrow> real list \<Rightarrow> real list \<Rightarrow> mat22f list option" where
  "gather_2x2 dem dem_shape x y =
    launch_opt (length x) (\<lambda>tid out. get_values_wp_2x2 dem dem_shape x y out tid)
      (replicate (length x) zero22)"

definition gather_4x4 ::
  "real list \<Rightarrow> vec2i \<Rightarrow> real list \<Rightarrow> real list \<Rightarrow> mat44f list option" where
  "gather_4x4 dem dem_shape x y =
    launch_opt (length x) (\<lambda>tid out. get_values_wp_4x4 dem dem_shape x y out tid)
      (replicate (length x) zero44)"

definition sample ::
  "real list \<Rightarrow> vec2i \<Rightarrow> vec2f \<Rightarrow> real \<Rightarrow> mode \<Rightarrow> vec2f list \<Rightarrow> real list option" where
  "sample dem dem_shape coord mpp m points =
    (let n = length points;
         (x, y) = pixel_coords dem_shape coord mpp points
     in case m of
          Bilinear \<Rightarrow>
            do { q \<leftarrow> gather_2x2 dem dem_shape x y;
                 Some (launch n (\<lambda>tid out. bilinear_interpolation x y q out tid)
                         (replicate n 0)) }
        | Bicubic \<Rightarrow>
            do { q \<leftarrow> gather_4x4 dem dem_shape x y;
                 Some (snd (launch n
                         (\<lambda>tid (coeffs, out). bicubic_interpolation x y q coeffs out tid)
                         (replicate n zero4, replicate n 0))) })"

subsection \<open>The batch operations under any order of the threads\<close>








subsection \<open>Notions of the specification used to state the claims\<close>

text \<open>
  Clamping an index into \<open>[0, n - 1]\<close>, and the DEM sample at row \<open>i\<close> and column
  \<open>j\<close> with each index clamped separately (section 4.1, steps 3 and 4, of the
  specification). The DEM is row-major with stride \<open>dem_shape[1]\<close>.
\<close>

definition clamp_index :: "int \<Rightarrow> int \<Rightarrow> int" where
  "clamp_index n i = max 0 (min i (n - 1))"

definition dem_at :: "real list \<Rightarrow> vec2i \<Rightarrow> int \<Rightarrow> int \<Rightarrow> real" where
  "dem_at dem dem_shape i j =
    dem ! nat (clamp_index (fst dem_shape) i * snd dem_shape + clamp_index (snd dem_shape) j)"

text \<open>
  The weights of the Catmull-Rom cubic convolution kernel (coefficient \<open>a = -0.5\<close>) at the
  fractional position \<open>t\<close>, for the samples at offsets \<open>-1\<close>, \<open>0\<close>, \<open>1\<close> and
  \<open>2\<close>, in their usual polynomial form.
\<close>

definition catmull_rom :: "real \<Rightarrow> vec4f" where
  "catmull_rom t =
    \<lparr>c0 = (2 * t ^ 2 - t ^ 3 - t) / 2,
     c1 = (3 * t ^ 3 - 5 * t ^ 2 + 2) / 2,
     c2 = (4 * t ^ 2 - 3 * t ^ 3 + t) / 2,
     c3 = (t ^ 3 - t ^ 2) / 2\<rparr>"

text \<open>
  The separable two-pass convolution of a 4x4 patch: the weights of the fractional part
  of \<open>x\<close> blend the four rows \<open>q[0, j]\<close>, ..., \<open>q[3, j]\<close> into one value per
  column \<open>j\<close>, and the weights of the fractional part of \<open>y\<close> blend these four values.
\<close>

definition bicubic_point :: "real \<Rightarrow> real \<Rightarrow> mat44f \<Rightarrow> real" where
  "bicubic_point x y q =
    (let cx = catmull_rom (x - trunc x); cy = catmull_rom (y - trunc y)
     in (p00 q * c0 cx + p10 q * c1 cx + p20 q * c2 cx + p30 q * c3 cx) * c0 cy
      + (p01 q * c0 cx + p11 q * c1 cx + p21 q * c2 cx + p31 q * c3 cx) * c1 cy
      + (p02 q * c0 cx + p12 q * c1 cx + p22 q * c2 cx + p32 q * c3 cx) * c2 cy
      + (p03 q * c0 cx + p13 q * c1 cx + p23 q * c2 cx + p33 q * c3 cx) * c3 cy)"

text \<open>
  A DEM of four rows and four columns used in the examples: the sample at row \<open>i\<close>
  and column \<open>j\<close> is \<open>4 * i + j\<close>.
\<close>

definition dem4x4 :: "real list" where
  "dem4x4 = [0, 1, 2, 3, 4, 5, 6, 7, 8, 9, 10, 11, 12, 13, 14, 15]"

section \<open>The collider cache\<close>

text \<open>
  Modelled from the spec: \<open>CollidersManager\<close> and \<open>CollidersManagerConf\<close>
  (\<open>src/terrain_management/colliders_manager.py\<close> and
  \<open>src/configurations/procedural_terrain_confs.py\<close>) are not among the source files;
  only the test that constructs the configuration and calls \<open>update_blocks\<close> once
  per tick is. The definitions below follow sections 3, 4.2 and 4.3 of the
  specification.
  \<^item> A tile is a pair of integers; the tile of a world position is found by floor
    division by the tile size.
  \<^item> A collider entry holds its tile, the opaque handle of the built geometry, and its
    last seen distance. The cache is the list of live entries in insertion order
    (oldest first).
  \<^item> One reconciliation first updates the last seen distance of every entry, then
    evicts the entries farther than the remove radius, then makes one pass over the
    candidate tiles within the remove radius of the reference point. A candidate
    within the build radius that is not cached is built if the cache is below
    \<open>max_cache_size\<close>; at capacity, the entry with the largest last seen distance
    (the oldest one among equals) is evicted to make room if it is farther than the
    candidate, and otherwise the candidate is reported as capacity contention and
    stays absent.
\<close>

type_synonym tile_coordinate = "int \<times> int"

record 'h collider_entry =
  tile :: tile_coordinate
  handle :: 'h
  last_seen_distance :: real

record colliders_manager_conf =
  tile_size :: real
  build_radius :: real
  remove_radius :: real
  max_cache_size :: nat

definition world_to_tile :: "real \<Rightarrow> real \<Rightarrow> real \<Rightarrow> tile_coordinate" where
  "world_to_tile x y ts = (\<lfloor>x / ts\<rfloor>, \<lfloor>y / ts\<rfloor>)"

definition tile_center :: "real \<Rightarrow> tile_coordinate \<Rightarrow> real \<times> real" where
  "tile_center ts t = ((of_int (fst t) + 1 / 2) * ts, (of_int (snd t) + 1 / 2) * ts)"

definition tile_distance :: "real \<Rightarrow> real \<times> real \<Rightarrow> tile_coordinate \<Rightarrow> real" where
  "tile_distance ts ref t =
    sqrt ((fst (tile_center ts t) - fst ref)\<^sup>2 + (snd (tile_center ts t) - snd ref)\<^sup>2)"

text \<open>The candidate tiles: those whose centre is within the remove radius.\<close>

definition candidate_tiles ::
  "colliders_manager_conf \<Rightarrow> real \<times> real \<Rightarrow> tile_coordinate list" where
  "candidate_tiles cfg ref =
    (let lo = world_to_tile (fst ref - remove_radius cfg) (snd ref - remove_radius cfg)
                (tile_size cfg);
         hi = world_to_tile (fst ref + remove_radius cfg) (snd ref + remove_radius cfg)
                (tile_size cfg)
     in filter (\<lambda>t. tile_distance (tile_size cfg) ref t \<le> remove_radius cfg)
          (List.product [fst lo..fst hi] [snd lo..snd hi]))"

text \<open>
  The eviction candidate: the entry with the largest last seen distance, the oldest
  one among equals.
\<close>

fun farthest :: "'h collider_entry list \<Rightarrow> 'h collider_entry option" where
  "farthest [] = None"
| "farthest (e # es) =
    (case farthest es of
       None \<Rightarrow> Some e
     | Some f \<Rightarrow> if last_seen_distance e < last_seen_distance f then Some f else Some e)"

record 'h reconcile_state =
  cache :: "'h collider_entry list"
  built :: "tile_coordinate list"
  evicted :: "tile_coordinate list"
  contention :: "tile_coordinate list"

definition visit_tile ::
  "colliders_manager_conf \<Rightarrow> (tile_coordinate \<Rightarrow> 'h) \<Rightarrow> real \<times> real \<Rightarrow> tile_coordinate
    \<Rightarrow> 'h reconcile_state \<Rightarrow> 'h reconcile_state" where
  "visit_tile cfg build ref t s =
    (let d = tile_distance (tile_size cfg) ref t;
         e = \<lparr>tile = t, handle = build t, last_seen_distance = d\<rparr>
     in if d \<le> build_radius cfg \<and> t \<notin> set (map tile (cache s)) then
          if length (cache s) < max_cache_size cfg then
            s\<lparr>cache := cache s @ [e], built := built s @ [t]\<rparr>
          else
            (case farthest (cache s) of
               None \<Rightarrow> s\<lparr>contention := contention s @ [t]\<rparr>
             | Some f \<Rightarrow>
                 if d < last_seen_distance f then
                   s\<lparr>cache := remove1 f (cache s) @ [e],
                     built := built s @ [t],
                     evicted := evicted s @ [tile f]\<rparr>
                 else s\<lparr>contention := contention s @ [t]\<rparr>)
        else s)"

definition reconcile ::
  "colliders_manager_conf \<Rightarrow> (tile_coordinate \<Rightarrow> 'h) \<Rightarrow> real \<times> real
    \<Rightarrow> 'h collider_entry list \<Rightarrow> 'h reconcile_state" where
  "reconcile cfg build ref c =
    (let seen = map (\<lambda>e. e\<lparr>last_seen_distance :=
                               tile_distance (tile_size cfg) ref (tile e)\<rparr>) c;
         gone = filter (\<lambda>e. remove_radius cfg < last_seen_distance e) seen;
         kept = filter (\<lambda>e. \<not> remove_radius cfg < last_seen_distance e) seen
     in fold (visit_tile cfg build ref) (candidate_tiles cfg ref)
          \<lparr>cache = kept, built = [], evicted = map tile gone, contention = []\<rparr>)"

text \<open>
  \<open>CM.update_blocks(position)\<close>, as the test calls it once per tick with an
  \<open>(x, y, z)\<close> position: one reconciliation at the position's \<open>x\<close> and \<open>y\<close>.
  \<open>drive\<close> is the test's loop from a freshly constructed manager (an empty cache)
  over a sequence of positions.
\<close>

definition update_blocks ::
  "colliders_manager_conf \<Rightarrow> (tile_coordinate \<Rightarrow> 'h) \<Rightarrow> 'h collider_entry list
    \<Rightarrow> real \<times> real \<times> real \<Rightarrow> 'h collider_entry list" where
  "update_blocks cfg build c position =
    cache (reconcile cfg build (fst position, fst (snd position)) c)"

definition drive ::
  "colliders_manager_conf \<Rightarrow> (tile_coordinate \<Rightarrow> 'h) \<Rightarrow> (real \<times> real \<times> real) list
    \<Rightarrow> 'h collider_entry list" where
  "drive cfg build positions = foldl (update_blocks cfg build) [] positions"

section \<open>Launches of thread-local kernels\<close>

text \<open>
  A kernel body that only writes slot \<open>tid\<close> of its output arrays, with a value that
  does not depend on the arrays' contents, fills the arrays slot by slot.
\<close>

lemma fold_local_list:
  assumes body: "\<And>t s. t < length s \<Longrightarrow> body t s = s[t := g t]"
  shows "n \<le> length s \<Longrightarrow> fold body [0..<n] s = map g [0..<n] @ drop n s"
proof (induction n)
  case 0
  then show ?case by simp
next
  case (Suc n)
  then have n: "n < length s" by simp
  have "fold body [0..<Suc n] s = body n (map g [0..<n] @ drop n s)"
    using Suc by simp
  also have "\<dots> = (map g [0..<n] @ drop n s)[n := g n]"
    using n by (simp add: body)
  also have "\<dots> = map g [0..<n] @ g n # drop (Suc n) s"
    using n by (simp add: list_update_append Cons_nth_drop_Suc[symmetric])
  finally show ?case by simp
qed

lemma launch_local:
  assumes "\<And>t s. t < length s \<Longrightarrow> body t s = s[t := g t]"
  shows "length s = n \<Longrightarrow> launch n body s = map g [0..<n]"
  unfolding launch_def using fold_local_list[OF assms, of n s] by simp

lemma fold_local_pair:
  assumes body: "\<And>t a b. t < length a \<Longrightarrow> t < length b \<Longrightarrow> body t (a, b) = (a[t := ga t], b[t := gb t])"
  shows "n \<le> length a \<Longrightarrow> n \<le> length b \<Longrightarrow>
     fold body [0..<n] (a, b) = (map ga [0..<n] @ drop n a, map gb [0..<n] @ drop n b)"
proof (induction n)
  case 0
  then show ?case by simp
next
  case (Suc n)
  then have n: "n < length a" "n < length b" by simp_all
  have "fold body [0..<Suc n] (a, b) = body n (map ga [0..<n] @ drop n a, map gb [0..<n] @ drop n b)"
    using Suc by simp
  also have "\<dots> = ((map ga [0..<n] @ drop n a)[n := ga n], (map gb [0..<n] @ drop n b)[n := gb n])"
    using n by (simp add: body)
  also have "\<dots> = (map ga [0..<n] @ ga n # drop (Suc n) a, map gb [0..<n] @ gb n # drop (Suc n) b)"
    using n by (simp add: list_update_append Cons_nth_drop_Suc[symmetric])
  finally show ?case by simp
qed

lemma launch_local_pair:
  assumes "\<And>t a b. t < length a \<Longrightarrow> t < length b \<Longrightarrow> body t (a, b) = (a[t := ga t], b[t := gb t])"
  shows "length a = n \<Longrightarrow> length b = n \<Longrightarrow> launch n body (a, b) = (map ga [0..<n], map gb [0..<n])"
  unfolding launch_def using fold_local_pair[OF assms, of n a b] by simp

lemma fold_local_opt:
  assumes body: "\<And>t s. t < length s \<Longrightarrow> body t s = map_option (\<lambda>m. s[t := m]) (g t)"
  shows "n \<le> length s \<Longrightarrow>
    fold (\<lambda>tid r. Option.bind r (body tid)) [0..<n] (Some s) =
      (if \<forall>t<n. g t \<noteq> None then Some (map (the \<circ> g) [0..<n] @ drop n s) else None)"
proof (induction n)
  case 0
  then show ?case by simp
next
  case (Suc n)
  then have n: "n < length s" by simp
  have IH: "fold (\<lambda>tid r. Option.bind r (body tid)) [0..<n] (Some s) =
      (if \<forall>t<n. g t \<noteq> None then Some (map (the \<circ> g) [0..<n] @ drop n s) else None)"
    using Suc by simp
  show ?case
  proof (cases "\<forall>t<n. g t \<noteq> None")
    case False
    then have nall: "\<not> (\<forall>t<Suc n. g t \<noteq> None)" using less_Suc_eq by blast
    have "fold (\<lambda>tid r. Option.bind r (body tid)) [0..<n] (Some s) = None"
      unfolding IH using False by (rule if_not_P)
    then have "fold (\<lambda>tid r. Option.bind r (body tid)) [0..<Suc n] (Some s) = None"
      by simp
    then show ?thesis unfolding if_not_P[OF nall] .
  next
    case True
    show ?thesis
    proof (cases "g n")
      case None
      then have nall: "\<not> (\<forall>t<Suc n. g t \<noteq> None)" by blast
      have "fold (\<lambda>tid r. Option.bind r (body tid)) [0..<n] (Some s)
          = Some (map (the \<circ> g) [0..<n] @ drop n s)"
        unfolding IH using True by (rule if_P)
      then have "fold (\<lambda>tid r. Option.bind r (body tid)) [0..<Suc n] (Some s)
          = body n (map (the \<circ> g) [0..<n] @ drop n s)"
        by simp
      also have "\<dots> = None"
        using n None by (simp add: body)
      finally show ?thesis unfolding if_not_P[OF nall] .
    next
      case (Some m)
      with True have all: "\<forall>t<Suc n. g t \<noteq> None" using less_Suc_eq by auto
      have "fold (\<lambda>tid r. Option.bind r (body tid)) [0..<n] (Some s)
          = Some (map (the \<circ> g) [0..<n] @ drop n s)"
        unfolding IH using True by (rule if_P)
      then have "fold (\<lambda>tid r. Option.bind r (body tid)) [0..<Suc n] (Some s)
          = body n (map (the \<circ> g) [0..<n] @ drop n s)"
        by simp
      also have "\<dots> = Some ((map (the \<circ> g) [0..<n] @ drop n s)[n := m])"
        using n Some by (simp add: body)
      also have "\<dots> = Some (map (the \<circ> g) [0..<n] @ m # drop (Suc n) s)"
        using n by (simp add: list_update_append Cons_nth_drop_Suc[symmetric])
      also have "\<dots> = Some (map (the \<circ> g) [0..<Suc n] @ drop (Suc n) s)"
        using Some by simp
      finally show ?thesis unfolding if_P[OF all] .
    qed
  qed
qed

lemma launch_opt_local:
  assumes "\<And>t s. t < length s \<Longrightarrow> body t s = map_option (\<lambda>m. s[t := m]) (g t)"
  shows "length s = n \<Longrightarrow> launch_opt n body s =
      (if \<forall>t<n. g t \<noteq> None then Some (map (the \<circ> g) [0..<n]) else None)"
  unfolding launch_opt_def using fold_local_opt[OF assms, of n s] by simp

section \<open>Preprocessing\<close>

text \<open>
  Each of the four statements \<open>x[tid] = wp.atomic_min(x, tid, ...)\<close> clamps the slot
  in place and then overwrites it with the value the atomic operation returns, the
  old one. The slot ends with the converted coordinate, not the clamped one.
\<close>

lemma preprocess_stores:
  "tid < length x \<Longrightarrow> tid < length y \<Longrightarrow>
    preprocess x y points coord mpp dem_shape tid =
      (x[tid := fst (points ! tid) / mpp + fst coord],
       y[tid := snd (points ! tid) / mpp + snd coord])"
  by (simp add: preprocess_def atomic_min_def atomic_max_def)

lemma pixel_coords_eq:
  "pixel_coords dem_shape coord mpp points =
    (map (\<lambda>p. fst p / mpp + fst coord) points, map (\<lambda>p. snd p / mpp + snd coord) points)"
proof -
  let ?n = "length points"
  have "launch ?n (\<lambda>tid (x, y). preprocess x y points coord mpp (shape_f dem_shape) tid)
          (replicate ?n 0, replicate ?n 0) =
        (map (\<lambda>t. fst (points ! t) / mpp + fst coord) [0..<?n],
         map (\<lambda>t. snd (points ! t) / mpp + snd coord) [0..<?n])"
    by (rule launch_local_pair) (simp_all add: preprocess_stores)
  moreover have "map (\<lambda>t. fst (points ! t) / mpp + fst coord) [0..<?n] = map (\<lambda>p. fst p / mpp + fst coord) points"
    by (rule nth_equalityI) simp_all
  moreover have "map (\<lambda>t. snd (points ! t) / mpp + snd coord) [0..<?n] = map (\<lambda>p. snd p / mpp + snd coord) points"
    by (rule nth_equalityI) simp_all
  ultimately show ?thesis by (simp add: pixel_coords_def)
qed



text \<open>
  Claim C2. After \<open>_preprocess\<close>, the stored \<open>x[tid]\<close> is said to be
  \<open>max(0, min(points[tid].x / mpp + coord.x, width - 1))\<close>, and \<open>y[tid]\<close> likewise.
  The code at the point \<open>(100, -7)\<close> with \<open>mpp = 1\<close>, no offset and a 10x10 DEM:
  the claim gives \<open>x = 9\<close> and \<open>y = 0\<close>, the kernel stores \<open>x = 100\<close> and \<open>y = -7\<close>.
\<close>

theorem preprocess_stores_unclamped:
  "preprocess [0] [0] [(100, - 7)] (0, 0) 1 (10, 10) 0 = ([100], [- 7]) \<and>
   max 0 (min (100 / 1 + 0) (10 - 1)) = (9::real) \<and>
   max 0 (min (- 7 / 1 + 0) (10 - 1)) = (0::real)"
  by (simp add: preprocess_def atomic_min_def atomic_max_def)

section \<open>Gathering neighbourhoods\<close>

lemma flat_index_bounds:
  fixes r c w h :: int
  assumes "0 \<le> r" "r \<le> w - 1" "0 \<le> c" "c \<le> h - 1"
  shows "0 \<le> r * h + c \<and> r * h + c < w * h"
proof -
  have h: "0 < h" using assms by linarith
  have "r * h \<le> (w - 1) * h" using assms h by (intro mult_right_mono) simp_all
  then have "r * h + c \<le> (w - 1) * h + (h - 1)" using assms by linarith
  also have "\<dots> = w * h - 1" by (simp add: algebra_simps)
  finally have "r * h + c < w * h" by simp
  moreover have "0 \<le> r * h" using assms h by simp
  ultimately show ?thesis using assms by simp
qed

lemma dem_read_in_bounds:
  assumes "0 \<le> r" "r \<le> w - 1" "0 \<le> c" "c \<le> h - 1" "int (length dem) = w * h"
  shows "dem_read dem (r * h + c) = Some (dem ! nat (r * h + c))"
  using flat_index_bounds[OF assms(1-4)] assms(5) by (simp add: dem_read_def)

lemma int_of_float_nonneg: "0 \<le> x \<Longrightarrow> int_of_float x = \<lfloor>x\<rfloor>"
  by (simp add: int_of_float_def)

lemma trunc_nonneg: "0 \<le> x \<Longrightarrow> trunc x = of_int \<lfloor>x\<rfloor>"
  by (simp add: trunc_def)

lemma floor_in_range:
  fixes x :: real
  assumes "0 \<le> x" "x \<le> of_int w - 1"
  shows "0 \<le> \<lfloor>x\<rfloor> \<and> \<lfloor>x\<rfloor> \<le> w - 1"
proof -
  have "x \<le> of_int (w - 1)" using assms by simp
  then have "\<lfloor>x\<rfloor> \<le> w - 1" by (metis floor_mono floor_of_int)
  then show ?thesis using assms by simp
qed

lemma get_2x2_mat_in_bounds:
  assumes "0 \<le> x" "x \<le> of_int w - 1" "0 \<le> y" "y \<le> of_int h - 1"
    and "int (length dem) = w * h"
  shows "get_2x2_mat dem (w, h) x y out =
    Some \<lparr>q00 = dem ! nat (\<lfloor>x\<rfloor> * h + \<lfloor>y\<rfloor>),
          q01 = dem ! nat (\<lfloor>x\<rfloor> * h + min (\<lfloor>y\<rfloor> + 1) (h - 1)),
          q10 = dem ! nat (min (\<lfloor>x\<rfloor> + 1) (w - 1) * h + \<lfloor>y\<rfloor>),
          q11 = dem ! nat (min (\<lfloor>x\<rfloor> + 1) (w - 1) * h + min (\<lfloor>y\<rfloor> + 1) (h - 1))\<rparr>"
proof -
  have fx: "0 \<le> \<lfloor>x\<rfloor>" "\<lfloor>x\<rfloor> \<le> w - 1" using floor_in_range[OF assms(1,2)] by simp_all
  have fy: "0 \<le> \<lfloor>y\<rfloor>" "\<lfloor>y\<rfloor> \<le> h - 1" using floor_in_range[OF assms(3,4)] by simp_all
  have x1: "0 \<le> min (\<lfloor>x\<rfloor> + 1) (w - 1)" "min (\<lfloor>x\<rfloor> + 1) (w - 1) \<le> w - 1" using fx by linarith+
  have y1: "0 \<le> min (\<lfloor>y\<rfloor> + 1) (h - 1)" "min (\<lfloor>y\<rfloor> + 1) (h - 1) \<le> h - 1" using fy by linarith+
  note rd = dem_read_in_bounds[OF _ _ _ _ assms(5)]
  show ?thesis
    unfolding get_2x2_mat_def Let_def fst_conv snd_conv int_of_float_nonneg[OF assms(1)] int_of_float_nonneg[OF assms(3)]
    by (simp add: rd[OF fx fy] rd[OF x1 fy] rd[OF fx y1] rd[OF x1 y1])
qed

lemma get_4x4_mat_in_bounds:
  fixes x y :: real and w h :: int
  assumes "0 \<le> x" "x \<le> of_int w - 1" "0 \<le> y" "y \<le> of_int h - 1"
    and len: "int (length dem) = w * h"
  defines "r0 \<equiv> max (\<lfloor>x\<rfloor> - 1) 0" and "k0 \<equiv> max (\<lfloor>y\<rfloor> - 1) 0"
  defines "r1 \<equiv> min (r0 + 1) (w - 1)" and "r2 \<equiv> min (r0 + 2) (w - 1)"
    and "r3 \<equiv> min (r0 + 3) (w - 1)"
    and "k1 \<equiv> min (k0 + 1) (h - 1)" and "k2 \<equiv> min (k0 + 2) (h - 1)"
    and "k3 \<equiv> min (k0 + 3) (h - 1)"
  shows "get_4x4_mat dem (w, h) x y out =
    Some \<lparr>p00 = dem ! nat (r0 * h + k0), p01 = dem ! nat (r0 * h + k1),
          p02 = dem ! nat (r0 * h + k2), p03 = dem ! nat (r0 * h + k3),
          p10 = dem ! nat (r1 * h + k0), p11 = dem ! nat (r1 * h + k1),
          p12 = dem ! nat (r1 * h + k2), p13 = dem ! nat (r1 * h + k3),
          p20 = dem ! nat (r2 * h + k0), p21 = dem ! nat (r2 * h + k1),
          p22 = dem ! nat (r2 * h + k2), p23 = dem ! nat (r2 * h + k3),
          p30 = dem ! nat (r3 * h + k0), p31 = dem ! nat (r3 * h + k1),
          p32 = dem ! nat (r3 * h + k2), p33 = dem ! nat (r3 * h + k3)\<rparr>"
proof -
  have fx: "0 \<le> \<lfloor>x\<rfloor>" "\<lfloor>x\<rfloor> \<le> w - 1" using floor_in_range[OF assms(1,2)] by simp_all
  have fy: "0 \<le> \<lfloor>y\<rfloor>" "\<lfloor>y\<rfloor> \<le> h - 1" using floor_in_range[OF assms(3,4)] by simp_all
  have r0: "0 \<le> r0" "r0 \<le> w - 1" using fx unfolding r0_def by linarith+
  have k0: "0 \<le> k0" "k0 \<le> h - 1" using fy unfolding k0_def by linarith+
  have r1: "0 \<le> r1" "r1 \<le> w - 1" using r0 unfolding r1_def by linarith+
  have r2: "0 \<le> r2" "r2 \<le> w - 1" using r0 unfolding r2_def by linarith+
  have r3: "0 \<le> r3" "r3 \<le> w - 1" using r0 unfolding r3_def by linarith+
  have k1: "0 \<le> k1" "k1 \<le> h - 1" using k0 unfolding k1_def by linarith+
  have k2: "0 \<le> k2" "k2 \<le> h - 1" using k0 unfolding k2_def by linarith+
  have k3: "0 \<le> k3" "k3 \<le> h - 1" using k0 unfolding k3_def by linarith+
  note rd = dem_read_in_bounds[OF _ _ _ _ len]
  have unf: "get_4x4_mat dem (w, h) x y out =
    do {
       v \<leftarrow> dem_read dem (r0 * h + k0); let out = out\<lparr>p00 := v\<rparr>;
       v \<leftarrow> dem_read dem (r1 * h + k0); let out = out\<lparr>p10 := v\<rparr>;
       v \<leftarrow> dem_read dem (r2 * h + k0); let out = out\<lparr>p20 := v\<rparr>;
       v \<leftarrow> dem_read dem (r3 * h + k0); let out = out\<lparr>p30 := v\<rparr>;
       v \<leftarrow> dem_read dem (r0 * h + k1); let out = out\<lparr>p01 := v\<rparr>;
       v \<leftarrow> dem_read dem (r1 * h + k1); let out = out\<lparr>p11 := v\<rparr>;
       v \<leftarrow> dem_read dem (r2 * h + k1); let out = out\<lparr>p21 := v\<rparr>;
       v \<leftarrow> dem_read dem (r3 * h + k1); let out = out\<lparr>p31 := v\<rparr>;
       v \<leftarrow> dem_read dem (r0 * h + k2); let out = out\<lparr>p02 := v\<rparr>;
       v \<leftarrow> dem_read dem (r1 * h + k2); let out = out\<lparr>p12 := v\<rparr>;
       v \<leftarrow> dem_read dem (r2 * h + k2); let out = out\<lparr>p22 := v\<rparr>;
       v \<leftarrow> dem_read dem (r3 * h + k2); let out = out\<lparr>p32 := v\<rparr>;
       v \<leftarrow> dem_read dem (r0 * h + k3); let out = out\<lparr>p03 := v\<rparr>;
       v \<leftarrow> dem_read dem (r1 * h + k3); let out = out\<lparr>p13 := v\<rparr>;
       v \<leftarrow> dem_read dem (r2 * h + k3); let out = out\<lparr>p23 := v\<rparr>;
       v \<leftarrow> dem_read dem (r3 * h + k3); let out = out\<lparr>p33 := v\<rparr>;
       Some out
     }"
    unfolding get_4x4_mat_def Let_def fst_conv snd_conv
      int_of_float_nonneg[OF assms(1)] int_of_float_nonneg[OF assms(3)]
      r0_def r1_def r2_def r3_def k0_def k1_def k2_def k3_def ..
  show ?thesis
    unfolding unf
    by (simp add: rd[OF r0 k0] rd[OF r1 k0] rd[OF r2 k0] rd[OF r3 k0]
        rd[OF r0 k1] rd[OF r1 k1] rd[OF r2 k1] rd[OF r3 k1]
        rd[OF r0 k2] rd[OF r1 k2] rd[OF r2 k2] rd[OF r3 k2]
        rd[OF r0 k3] rd[OF r1 k3] rd[OF r2 k3] rd[OF r3 k3])
qed

text \<open>
  Claim C10. When \<open>0 \<le> x \<le> dem_shape[0] - 1\<close> and \<open>0 \<le> y \<le> dem_shape[1] - 1\<close>
  and the DEM array has \<open>dem_shape[0] * dem_shape[1]\<close> elements, every flat index
  that \<open>_get_2x2_mat\<close> and \<open>_get_4x4_mat\<close> read is inside the array: neither
  function faults.
\<close>

theorem gather_in_bounds:
  assumes "0 \<le> x" "x \<le> of_int (fst dem_shape) - 1"
    and "0 \<le> y" "y \<le> of_int (snd dem_shape) - 1"
    and "int (length dem) = fst dem_shape * snd dem_shape"
  shows "(\<exists>m. get_2x2_mat dem dem_shape x y out2 = Some m) \<and>
         (\<exists>m. get_4x4_mat dem dem_shape x y out4 = Some m)"
proof -
  obtain w h where sh: "dem_shape = (w, h)" by (cases dem_shape)
  show ?thesis
    using assms unfolding sh fst_conv snd_conv
    by (simp add: get_2x2_mat_in_bounds get_4x4_mat_in_bounds)
qed

theorem gather_in_bounds_witness:
  "(\<exists>m. get_2x2_mat dem4x4 (4, 4) (3 / 2) 3 zero22 = Some m) \<and>
   (\<exists>m. get_4x4_mat dem4x4 (4, 4) (3 / 2) 3 zero44 = Some m)"
  using gather_in_bounds [of "3 / 2" "(4, 4)" 3 dem4x4 zero22 zero44]
  by (simp add: dem4x4_def)

text \<open>The output matrix passed to a gather function does not influence its result.\<close>

lemma get_2x2_mat_out: "get_2x2_mat dem dem_shape x y out = get_2x2_mat dem dem_shape x y out'"
  by (cases out, cases out') (simp add: get_2x2_mat_def Let_def)

lemma get_4x4_mat_out: "get_4x4_mat dem dem_shape x y out = get_4x4_mat dem dem_shape x y out'"
  by (cases out, cases out') (simp add: get_4x4_mat_def Let_def)

lemma get_values_wp_2x2_local:
  "get_values_wp_2x2 dem dem_shape x y out tid =
     map_option (\<lambda>m. out[tid := m]) (get_2x2_mat dem dem_shape (x ! tid) (y ! tid) zero22)"
  unfolding get_values_wp_2x2_def get_2x2_mat_out[of _ _ _ _ "out ! tid" zero22]
  by (cases "get_2x2_mat dem dem_shape (x ! tid) (y ! tid) zero22") simp_all

lemma get_values_wp_4x4_local:
  "get_values_wp_4x4 dem dem_shape x y out tid =
     map_option (\<lambda>m. out[tid := m]) (get_4x4_mat dem dem_shape (x ! tid) (y ! tid) zero44)"
  unfolding get_values_wp_4x4_def get_4x4_mat_out[of _ _ _ _ "out ! tid" zero44]
  by (cases "get_4x4_mat dem dem_shape (x ! tid) (y ! tid) zero44") simp_all

lemma gather_2x2_eq:
  "gather_2x2 dem dem_shape x y =
    (if \<forall>t<length x. get_2x2_mat dem dem_shape (x ! t) (y ! t) zero22 \<noteq> None
     then Some (map (the \<circ> (\<lambda>t. get_2x2_mat dem dem_shape (x ! t) (y ! t) zero22)) [0..<length x])
     else None)"
  unfolding gather_2x2_def
  by (rule launch_opt_local) (simp_all add: get_values_wp_2x2_local)

lemma gather_4x4_eq:
  "gather_4x4 dem dem_shape x y =
    (if \<forall>t<length x. get_4x4_mat dem dem_shape (x ! t) (y ! t) zero44 \<noteq> None
     then Some (map (the \<circ> (\<lambda>t. get_4x4_mat dem dem_shape (x ! t) (y ! t) zero44)) [0..<length x])
     else None)"
  unfolding gather_4x4_def
  by (rule launch_opt_local) (simp_all add: get_values_wp_4x4_local)

lemma gather_2x2_single:
  "gather_2x2 dem dem_shape [x] [y] = map_option (\<lambda>m. [m]) (get_2x2_mat dem dem_shape x y zero22)"
  by (cases "get_2x2_mat dem dem_shape x y zero22") (simp_all add: gather_2x2_eq)

lemma gather_4x4_single:
  "gather_4x4 dem dem_shape [x] [y] = map_option (\<lambda>m. [m]) (get_4x4_mat dem dem_shape x y zero44)"
  by (cases "get_4x4_mat dem dem_shape x y zero44") (simp_all add: gather_4x4_eq)



section \<open>Bilinear sampling\<close>

lemma clamp_index_id: "0 \<le> i \<Longrightarrow> i \<le> n - 1 \<Longrightarrow> clamp_index n i = i"
  by (simp add: clamp_index_def)

lemma clamp_index_succ: "0 \<le> i \<Longrightarrow> i \<le> n - 1 \<Longrightarrow> clamp_index n (i + 1) = min (i + 1) (n - 1)"
  by (simp add: clamp_index_def)

text \<open>
  Claim C5. For a clamped pixel coordinate \<open>(x, y)\<close>, the gathered 2x2 patch holds the
  DEM samples at \<open>(x0, y0)\<close>, \<open>(x0 + 1, y0)\<close>, \<open>(x0, y0 + 1)\<close> and
  \<open>(x0 + 1, y0 + 1)\<close>, each index clamped separately, where \<open>x0\<close> and \<open>y0\<close> are the
  floors of \<open>x\<close> and \<open>y\<close>; and with \<open>fx = x - x0\<close> and \<open>fy = y - y0\<close> the
  interpolator returns
  \<open>(1-fx)(1-fy) q00 + fx(1-fy) q10 + (1-fx)fy q01 + fx fy q11\<close>.
\<close>

theorem bilinear_sampling:
  assumes "0 \<le> x" "x \<le> of_int (fst dem_shape) - 1"
    and "0 \<le> y" "y \<le> of_int (snd dem_shape) - 1"
    and "int (length dem) = fst dem_shape * snd dem_shape"
  shows "\<exists>q. get_2x2_mat dem dem_shape x y out = Some q \<and>
    q00 q = dem_at dem dem_shape \<lfloor>x\<rfloor> \<lfloor>y\<rfloor> \<and>
    q10 q = dem_at dem dem_shape (\<lfloor>x\<rfloor> + 1) \<lfloor>y\<rfloor> \<and>
    q01 q = dem_at dem dem_shape \<lfloor>x\<rfloor> (\<lfloor>y\<rfloor> + 1) \<and>
    q11 q = dem_at dem dem_shape (\<lfloor>x\<rfloor> + 1) (\<lfloor>y\<rfloor> + 1) \<and>
    bilinear_interpolator x y q =
      (1 - (x - of_int \<lfloor>x\<rfloor>)) * (1 - (y - of_int \<lfloor>y\<rfloor>)) * q00 q
      + (x - of_int \<lfloor>x\<rfloor>) * (1 - (y - of_int \<lfloor>y\<rfloor>)) * q10 q
      + (1 - (x - of_int \<lfloor>x\<rfloor>)) * (y - of_int \<lfloor>y\<rfloor>) * q01 q
      + (x - of_int \<lfloor>x\<rfloor>) * (y - of_int \<lfloor>y\<rfloor>) * q11 q"
proof -
  obtain w h where sh: "dem_shape = (w, h)" by (cases dem_shape)
  have b: "0 \<le> x" "x \<le> of_int w - 1" "0 \<le> y" "y \<le> of_int h - 1" "int (length dem) = w * h"
    using assms unfolding sh by simp_all
  have fx: "0 \<le> \<lfloor>x\<rfloor>" "\<lfloor>x\<rfloor> \<le> w - 1" using floor_in_range[OF b(1,2)] by simp_all
  have fy: "0 \<le> \<lfloor>y\<rfloor>" "\<lfloor>y\<rfloor> \<le> h - 1" using floor_in_range[OF b(3,4)] by simp_all
  show ?thesis
    unfolding sh get_2x2_mat_in_bounds[OF b]
    by (simp add: dem_at_def clamp_index_id[OF fx] clamp_index_id[OF fy]
        clamp_index_succ[OF fx] clamp_index_succ[OF fy]
        bilinear_interpolator_def Let_def trunc_nonneg[OF b(1)] trunc_nonneg[OF b(3)])
qed

theorem bilinear_sampling_witness:
  "\<exists>q. get_2x2_mat dem4x4 (4, 4) (5 / 2) 3 zero22 = Some q \<and>
     q00 q = 11 \<and> q10 q = 15 \<and> q01 q = 11 \<and> q11 q = 15 \<and>
     bilinear_interpolator (5 / 2) 3 q = 13"
proof -
  have f: "\<lfloor>5 / 2 :: real\<rfloor> = 2" by simp
  have d: "dem_at dem4x4 (4, 4) 2 3 = 11" "dem_at dem4x4 (4, 4) 3 3 = 11 + 4"
     "dem_at dem4x4 (4, 4) 2 4 = 11" "dem_at dem4x4 (4, 4) 3 4 = 15"
    by (simp_all add: dem_at_def clamp_index_def dem4x4_def)
  from bilinear_sampling [of "5 / 2" "(4, 4)" 3 dem4x4 zero22]
  obtain q where "get_2x2_mat dem4x4 (4, 4) (5 / 2) 3 zero22 = Some q"
    "q00 q = dem_at dem4x4 (4, 4) 2 3" "q10 q = dem_at dem4x4 (4, 4) 3 3"
    "q01 q = dem_at dem4x4 (4, 4) 2 4" "q11 q = dem_at dem4x4 (4, 4) 3 4"
    "bilinear_interpolator (5 / 2) 3 q = 
      (1 - (5 / 2 - 2)) * (1 - (3 - 3)) * q00 q
      + (5 / 2 - 2) * (1 - (3 - 3)) * q10 q
      + (1 - (5 / 2 - 2)) * (3 - 3) * q01 q
      + (5 / 2 - 2) * (3 - 3) * q11 q"
    unfolding f by (auto simp: dem4x4_def)
  then show ?thesis by (intro exI[of _ q]) (simp add: d)
qed

section \<open>Bicubic sampling\<close>

text \<open>
  The weights \<open>_cubic_interpolator\<close> computes are the Catmull-Rom weights of the
  fractional part of its argument, and one thread of \<open>_bicubic_interpolation\<close>
  stores the separable two-pass convolution of its patch.
\<close>

lemma cubic_interpolator_eq: "cubic_interpolator x coeffs = catmull_rom (x - trunc x)"
proof -
  define t where "t = x - trunc x"
  show ?thesis
    unfolding cubic_interpolator_def catmull_rom_def Let_def t_def[symmetric]
    by (cases coeffs) (simp add: power3_eq_cube power2_eq_square algebra_simps)
qed

lemma bicubic_interpolation_local:
  assumes "tid < length coeffs" "tid < length out"
  shows "bicubic_interpolation x y q coeffs out tid =
    (coeffs[tid := catmull_rom (y ! tid - trunc (y ! tid))],
     out[tid := bicubic_point (x ! tid) (y ! tid) (q ! tid)])"
  using assms
  by (simp add: bicubic_interpolation_def bicubic_point_def Let_def cubic_interpolator_eq)

lemma catmull_rom_0: "catmull_rom 0 = \<lparr>c0 = 0, c1 = 1, c2 = 0, c3 = 0\<rparr>"
  by (simp add: catmull_rom_def)

lemma trunc_of_int: "0 \<le> i \<Longrightarrow> trunc (of_int i) = of_int i"
  by (simp add: trunc_def)

text \<open>
  Away from the low edge, for a clamped coordinate with \<open>1 \<le> x\<close> and \<open>1 \<le> y\<close>,
  the gathered 4x4 patch is the neighbourhood of rows \<open>\<lfloor>x\<rfloor> - 1, ..., \<lfloor>x\<rfloor> + 2\<close> and
  columns \<open>\<lfloor>y\<rfloor> - 1, ..., \<lfloor>y\<rfloor> + 2\<close> with each index clamped on its own.
\<close>

lemma clamp_index_window:
  assumes "1 \<le> i" "i \<le> n - 1"
  shows "clamp_index n (i - 1) = max (i - 1) 0"
    and "clamp_index n i = min (max (i - 1) 0 + 1) (n - 1)"
    and "clamp_index n (i + 1) = min (max (i - 1) 0 + 2) (n - 1)"
    and "clamp_index n (i + 2) = min (max (i - 1) 0 + 3) (n - 1)"
  using assms by (simp_all add: clamp_index_def)

lemma bicubic_sampling_interior:
  fixes x y :: real
  assumes "1 \<le> x" "x \<le> of_int w - 1" "1 \<le> y" "y \<le> of_int h - 1"
    and "int (length dem) = w * h"
  shows "get_4x4_mat dem (w, h) x y out =
    Some \<lparr>p00 = dem_at dem (w, h) (\<lfloor>x\<rfloor> - 1) (\<lfloor>y\<rfloor> - 1),
          p01 = dem_at dem (w, h) (\<lfloor>x\<rfloor> - 1) \<lfloor>y\<rfloor>,
          p02 = dem_at dem (w, h) (\<lfloor>x\<rfloor> - 1) (\<lfloor>y\<rfloor> + 1),
          p03 = dem_at dem (w, h) (\<lfloor>x\<rfloor> - 1) (\<lfloor>y\<rfloor> + 2),
          p10 = dem_at dem (w, h) \<lfloor>x\<rfloor> (\<lfloor>y\<rfloor> - 1),
          p11 = dem_at dem (w, h) \<lfloor>x\<rfloor> \<lfloor>y\<rfloor>,
          p12 = dem_at dem (w, h) \<lfloor>x\<rfloor> (\<lfloor>y\<rfloor> + 1),
          p13 = dem_at dem (w, h) \<lfloor>x\<rfloor> (\<lfloor>y\<rfloor> + 2),
          p20 = dem_at dem (w, h) (\<lfloor>x\<rfloor> + 1) (\<lfloor>y\<rfloor> - 1),
          p21 = dem_at dem (w, h) (\<lfloor>x\<rfloor> + 1) \<lfloor>y\<rfloor>,
          p22 = dem_at dem (w, h) (\<lfloor>x\<rfloor> + 1) (\<lfloor>y\<rfloor> + 1),
          p23 = dem_at dem (w, h) (\<lfloor>x\<rfloor> + 1) (\<lfloor>y\<rfloor> + 2),
          p30 = dem_at dem (w, h) (\<lfloor>x\<rfloor> + 2) (\<lfloor>y\<rfloor> - 1),
          p31 = dem_at dem (w, h) (\<lfloor>x\<rfloor> + 2) \<lfloor>y\<rfloor>,
          p32 = dem_at dem (w, h) (\<lfloor>x\<rfloor> + 2) (\<lfloor>y\<rfloor> + 1),
          p33 = dem_at dem (w, h) (\<lfloor>x\<rfloor> + 2) (\<lfloor>y\<rfloor> + 2)\<rparr>"
proof -
  have x0: "0 \<le> x" and y0: "0 \<le> y" using assms by simp_all
  have fx: "1 \<le> \<lfloor>x\<rfloor>" "\<lfloor>x\<rfloor> \<le> w - 1"
    using assms(1) floor_in_range[OF x0 assms(2)] by (simp_all add: le_floor_iff)
  have fy: "1 \<le> \<lfloor>y\<rfloor>" "\<lfloor>y\<rfloor> \<le> h - 1"
    using assms(3) floor_in_range[OF y0 assms(4)] by (simp_all add: le_floor_iff)
  show ?thesis
    unfolding get_4x4_mat_in_bounds[OF x0 assms(2) y0 assms(4) assms(5)] dem_at_def
      fst_conv snd_conv clamp_index_window[OF fx] clamp_index_window[OF fy] ..
qed

text \<open>
  Claim C4. Bicubic sampling is said to gather the 4x4 neighbourhood of a clamped pixel
  coordinate with each row and column index clamped independently, and to blend it by
  the separable Catmull-Rom convolution. The code at the clamped coordinate \<open>(0, 1)\<close>
  of the 4x4 example DEM: the rows \<open>-1, 0, 1, 2\<close> clamped one by one are
  \<open>0, 0, 1, 2\<close>, the kernel gathers the rows \<open>0, 1, 2, 3\<close> (and the columns
  \<open>0, 1, 2, 3\<close>), since it clamps the first index and derives the others from the
  clamped one. The convolution, whose weights at a zero fractional part select the
  second row and column, then returns the sample at row 1, column 1, which is 5, where
  the sample at row 0, column 1 is 1.
\<close>

theorem bicubic_low_edge_shifted:
  "get_4x4_mat dem4x4 (4, 4) 0 1 zero44 =
     Some \<lparr>p00 = 0, p01 = 1, p02 = 2, p03 = 3, p10 = 4, p11 = 5, p12 = 6, p13 = 7,
           p20 = 8, p21 = 9, p22 = 10, p23 = 11, p30 = 12, p31 = 13, p32 = 14, p33 = 15\<rparr> \<and>
   dem_at dem4x4 (4, 4) (0 - 1) 1 = 1 \<and>
   dem_at dem4x4 (4, 4) 0 1 = 1 \<and>
   dem_at dem4x4 (4, 4) (0 + 1) 1 = 5 \<and>
   dem_at dem4x4 (4, 4) (0 + 2) 1 = 9 \<and>
   bicubic_interpolation [0] [1]
     [\<lparr>p00 = 0, p01 = 1, p02 = 2, p03 = 3, p10 = 4, p11 = 5, p12 = 6, p13 = 7,
       p20 = 8, p21 = 9, p22 = 10, p23 = 11, p30 = 12, p31 = 13, p32 = 14, p33 = 15\<rparr>]
     [zero4] [0] 0 = ([\<lparr>c0 = 0, c1 = 1, c2 = 0, c3 = 0\<rparr>], [5])"
proof -
  have "get_4x4_mat dem4x4 (4, 4) 0 1 zero44 =
     Some \<lparr>p00 = 0, p01 = 1, p02 = 2, p03 = 3, p10 = 4, p11 = 5, p12 = 6, p13 = 7,
           p20 = 8, p21 = 9, p22 = 10, p23 = 11, p30 = 12, p31 = 13, p32 = 14, p33 = 15\<rparr>"
    using get_4x4_mat_in_bounds [of 0 4 1 4 dem4x4 zero44] by (simp add: dem4x4_def)
  moreover have "dem_at dem4x4 (4, 4) (0 - 1) 1 = 1" "dem_at dem4x4 (4, 4) 0 1 = 1"
      "dem_at dem4x4 (4, 4) (0 + 1) 1 = 5" "dem_at dem4x4 (4, 4) (0 + 2) 1 = 9"
    by (simp_all add: dem_at_def clamp_index_def dem4x4_def)
  moreover have "bicubic_interpolation [0] [1]
     [\<lparr>p00 = 0, p01 = 1, p02 = 2, p03 = 3, p10 = 4, p11 = 5, p12 = 6, p13 = 7,
       p20 = 8, p21 = 9, p22 = 10, p23 = 11, p30 = 12, p31 = 13, p32 = 14, p33 = 15\<rparr>]
     [zero4] [0] 0 = ([\<lparr>c0 = 0, c1 = 1, c2 = 0, c3 = 0\<rparr>], [5])"
    by (simp add: bicubic_interpolation_local bicubic_point_def trunc_def catmull_rom_0)
  ultimately show ?thesis by simp
qed

section \<open>The batch operations\<close>

lemma bilinear_launch:
  "length out = n \<Longrightarrow> launch n (\<lambda>tid out. bilinear_interpolation x y q out tid) out =
    map (\<lambda>t. bilinear_interpolator (x ! t) (y ! t) (q ! t)) [0..<n]"
  by (rule launch_local) (simp_all add: bilinear_interpolation_def)

lemma bicubic_launch:
  "length coeffs = n \<Longrightarrow> length out = n \<Longrightarrow>
   launch n (\<lambda>tid (coeffs, out). bicubic_interpolation x y q coeffs out tid) (coeffs, out) =
    (map (\<lambda>t. catmull_rom (y ! t - trunc (y ! t))) [0..<n],
     map (\<lambda>t. bicubic_point (x ! t) (y ! t) (q ! t)) [0..<n])"
  by (rule launch_local_pair) (simp_all add: bicubic_interpolation_local)

lemma sample_eq:
  "sample dem dem_shape coord mpp m points =
    (let x = map (\<lambda>p. fst p / mpp + fst coord) points;
         y = map (\<lambda>p. snd p / mpp + snd coord) points
     in case m of
          Bilinear \<Rightarrow> map_option
            (\<lambda>q. map (\<lambda>t. bilinear_interpolator (x ! t) (y ! t) (q ! t)) [0..<length points])
            (gather_2x2 dem dem_shape x y)
        | Bicubic \<Rightarrow> map_option
            (\<lambda>q. map (\<lambda>t. bicubic_point (x ! t) (y ! t) (q ! t)) [0..<length points])
            (gather_4x4 dem dem_shape x y))"
proof (cases m)
  case Bilinear
  then show ?thesis
    by (cases "gather_2x2 dem dem_shape (map (\<lambda>p. fst p / mpp + fst coord) points)
                 (map (\<lambda>p. snd p / mpp + snd coord) points)")
       (simp_all add: sample_def pixel_coords_eq Let_def bilinear_launch)
next
  case Bicubic
  then show ?thesis
    by (cases "gather_4x4 dem dem_shape (map (\<lambda>p. fst p / mpp + fst coord) points)
                 (map (\<lambda>p. snd p / mpp + snd coord) points)")
       (simp_all add: sample_def pixel_coords_eq Let_def bicubic_launch)
qed



text \<open>
  Claim C3. For a query point whose converted pixel coordinate is outside the DEM, the
  sampling pipeline is said never to read the DEM array out of bounds and to return
  the value of the nearest in-bounds edge sample. The code on the 4x4 example DEM with
  \<open>mpp = 1\<close> and no offset: the point \<open>(-5, 1)\<close> is stored unclamped as pixel
  coordinate \<open>(-5, 1)\<close>; the 2x2 gather then reads the flat index \<open>-5 * 4 + 1\<close>, and
  for the point \<open>(100, 1)\<close> both gathers read a flat index of at least
  \<open>99 * 4\<close>: the launches fault.
\<close>

theorem sample_out_of_range_faults:
  "pixel_coords (4, 4) (0, 0) 1 [(- 5, 1)] = ([- 5], [1]) \<and>
   sample dem4x4 (4, 4) (0, 0) 1 Bilinear [(- 5, 1)] = None \<and>
   sample dem4x4 (4, 4) (0, 0) 1 Bilinear [(100, 1)] = None \<and>
   sample dem4x4 (4, 4) (0, 0) 1 Bicubic [(100, 1)] = None"
proof -
  have "get_2x2_mat dem4x4 (4, 4) (- 5) 1 zero22 = None"
    by (simp add: get_2x2_mat_def int_of_float_def dem_read_def dem4x4_def)
  moreover have "get_2x2_mat dem4x4 (4, 4) 100 1 zero22 = None"
    by (simp add: get_2x2_mat_def int_of_float_def dem_read_def dem4x4_def)
  moreover have "get_4x4_mat dem4x4 (4, 4) 100 1 zero44 = None"
    by (simp add: get_4x4_mat_def int_of_float_def dem_read_def dem4x4_def)
  ultimately show ?thesis
    by (simp add: pixel_coords_eq sample_eq gather_2x2_single gather_4x4_single)
qed

section \<open>Queries on grid points\<close>

lemma of_int_in_range:
  assumes "0 \<le> i" "i \<le> w - 1"
  shows "(0::real) \<le> of_int i" "(of_int i :: real) \<le> of_int w - 1"
proof -
  show "(0::real) \<le> of_int i" using assms(1) by simp
  have "(of_int i :: real) \<le> of_int (w - 1)" using assms(2) by (simp only: of_int_le_iff)
  then show "(of_int i :: real) \<le> of_int w - 1" by simp
qed

lemma bilinear_on_grid:
  assumes "0 \<le> i" "i \<le> w - 1" "0 \<le> j" "j \<le> h - 1" "int (length dem) = w * h"
  shows "\<exists>q. get_2x2_mat dem (w, h) (of_int i) (of_int j) out = Some q \<and>
    bilinear_interpolator (of_int i) (of_int j) q = dem ! nat (i * h + j)"
proof -
  note b = of_int_in_range[OF assms(1,2)] of_int_in_range[OF assms(3,4)]
  show ?thesis
    unfolding get_2x2_mat_in_bounds[OF b assms(5)]
    by (simp add: bilinear_interpolator_def Let_def trunc_of_int assms)
qed

lemma bicubic_on_grid:
  assumes "1 \<le> i" "i \<le> w - 1" "1 \<le> j" "j \<le> h - 1" "int (length dem) = w * h"
  shows "\<exists>q. get_4x4_mat dem (w, h) (of_int i) (of_int j) out = Some q \<and>
    bicubic_point (of_int i) (of_int j) q = dem ! nat (i * h + j)"
proof -
  have nn: "0 \<le> i" "0 \<le> j" using assms by simp_all
  note b = of_int_in_range[OF nn(1) assms(2)] of_int_in_range[OF nn(2) assms(4)]
  have r: "min (max (i - 1) 0 + 1) (w - 1) = i" "min (max (j - 1) 0 + 1) (h - 1) = j"
    using assms by linarith+
  have t: "trunc (of_int i) = of_int i" "trunc (of_int j) = of_int j"
    using assms by (simp_all add: trunc_of_int)
  show ?thesis
    unfolding get_4x4_mat_in_bounds[OF b assms(5)]
    by (simp add: bicubic_point_def Let_def t catmull_rom_0 r)
qed

text \<open>
  Claim C6. For a query point strictly inside the DEM whose pixel coordinate is the
  integer grid coordinate \<open>(i, j)\<close>, bilinear and bicubic sampling both return the
  DEM sample \<open>dem[i, j]\<close>, the element \<open>i * dem_shape[1] + j\<close> of the array.
\<close>

theorem on_grid_lookup:
  assumes "0 < i" "i < fst dem_shape - 1" "0 < j" "j < snd dem_shape - 1"
    and "int (length dem) = fst dem_shape * snd dem_shape"
    and "fst p / mpp + fst coord = of_int i" "snd p / mpp + snd coord = of_int j"
    and "mpp \<noteq> 0"
  shows "sample dem dem_shape coord mpp Bilinear [p] = Some [dem ! nat (i * snd dem_shape + j)] \<and>
         sample dem dem_shape coord mpp Bicubic [p] = Some [dem ! nat (i * snd dem_shape + j)]"
proof -
  obtain w h where sh: "dem_shape = (w, h)" by (cases dem_shape)
  have len: "int (length dem) = w * h" using assms(5) unfolding sh by simp
  have i: "0 \<le> i" "1 \<le> i" "i \<le> w - 1" and j: "0 \<le> j" "1 \<le> j" "j \<le> h - 1"
    using assms(1-4) unfolding sh by simp_all
  obtain q2 where q2: "get_2x2_mat dem (w, h) (of_int i) (of_int j) zero22 = Some q2"
      "bilinear_interpolator (of_int i) (of_int j) q2 = dem ! nat (i * h + j)"
    using bilinear_on_grid[OF i(1,3) j(1,3) len] by blast
  obtain q4 where q4: "get_4x4_mat dem (w, h) (of_int i) (of_int j) zero44 = Some q4"
      "bicubic_point (of_int i) (of_int j) q4 = dem ! nat (i * h + j)"
    using bicubic_on_grid[OF i(2,3) j(2,3) len] by blast
  show ?thesis
    unfolding sh
    by (simp add: sample_eq assms(6,7) gather_2x2_single gather_4x4_single q2 q4)
qed

theorem on_grid_lookup_witness:
  "sample dem4x4 (4, 4) (1, 1) 2 Bilinear [(2, 0)] = Some [9] \<and>
   sample dem4x4 (4, 4) (1, 1) 2 Bicubic [(2, 0)] = Some [9]"
  using on_grid_lookup [of 2 "(4, 4)" 1 dem4x4 "(2, 0)" 2 "(1, 1)"]
  by (simp add: dem4x4_def)

section \<open>Independence of the points of a batch\<close>


















section \<open>Normals\<close>

text \<open>
  Claim C7. For every 2x2 patch \<open>q\<close> and every \<open>grid_size\<close>, the vector computed by
  \<open>_normal_on_grid\<close> is said to be exactly
  \<open>(grid_size/2 * (q01 - q11 - q10 + q00), grid_size/2 * (q10 - q11 - q01 - q00),
  grid_size^2)\<close>. The code: the return statement writes this expression with the int
  literal \<open>2\<close> under the float \<open>grid_size\<close>, where the other functions of the file
  write their float literals as \<open>1.0\<close>, \<open>2.0\<close>, \<open>5.0\<close>. Warp has no division of a
  float by an int, the function does not build, and for every patch and grid size the
  call ends with the build error instead of a vector.
\<close>

theorem normal_on_grid_does_not_build:
  "normal_on_grid q grid_size = Inl WarpBuildError"
  by (simp add: normal_on_grid_def float_div_def)




section \<open>The bound of the collider cache\<close>

lemma farthest_mem: "farthest es = Some f \<Longrightarrow> f \<in> set es"
  by (induction es arbitrary: f) (auto split: option.splits if_splits)

lemma visit_tile_bound:
  assumes "length (cache s) \<le> max_cache_size cfg"
  shows "length (cache (visit_tile cfg build ref t s)) \<le> max_cache_size cfg"
proof -
  have rm: "length (remove1 f (cache s)) + 1 \<le> max_cache_size cfg"
    if "farthest (cache s) = Some f" for f
  proof -
    from that have "f \<in> set (cache s)" by (rule farthest_mem)
    then have "length (remove1 f (cache s)) = length (cache s) - 1" "cache s \<noteq> []"
      by (auto simp: length_remove1)
    then show ?thesis using assms by (cases "cache s") simp_all
  qed
  show ?thesis
    using assms rm by (auto simp: visit_tile_def Let_def split: option.splits)
qed

lemma fold_visit_bound:
  "length (cache s) \<le> max_cache_size cfg \<Longrightarrow>
    length (cache (fold (visit_tile cfg build ref) ts s)) \<le> max_cache_size cfg"
  by (induction ts arbitrary: s) (simp_all add: visit_tile_bound)

lemma reconcile_bound:
  assumes "length c \<le> max_cache_size cfg"
  shows "length (cache (reconcile cfg build ref c)) \<le> max_cache_size cfg"
proof -
  have "length (filter P (map g c)) \<le> max_cache_size cfg"
    for P and g :: "'a collider_entry \<Rightarrow> 'a collider_entry"
  proof -
    have "length (filter P (map g c)) \<le> length (map g c)" by (rule length_filter_le)
    also have "\<dots> = length c" by (rule length_map)
    finally show ?thesis using assms by (rule order_trans)
  qed
  then show ?thesis
    unfolding reconcile_def Let_def by (intro fold_visit_bound) (simp del: filter_map)
qed

lemma foldl_update_blocks_bound:
  "length c \<le> max_cache_size cfg \<Longrightarrow>
    length (foldl (update_blocks cfg build) c positions) \<le> max_cache_size cfg"
  by (induction positions arbitrary: c) (simp_all add: update_blocks_def reconcile_bound)

text \<open>
  Claim C9. For any sequence of reference positions driven through the collider cache,
  one \<open>update_blocks\<close> call per tick, the number of live collider entries is at most
  \<open>max_cache_size\<close> after every call: after the first \<open>k\<close> positions of any
  sequence, for every \<open>k\<close>.
\<close>

theorem cache_bound:
  "length (drive cfg build (take k positions)) \<le> max_cache_size cfg"
  unfolding drive_def by (rule foldl_update_blocks_bound) simp

end
